theory Spec2Isabelle
  imports Main
begin

section \<open>Markup\<close>

text \<open>
  The component file \<open>src/components/HomepageFeatures/index.tsx\<close> builds a tree of JSX
  elements. An element type is either an intrinsic tag (\<open>div\<close>, \<open>section\<close>, \<open>p\<close>) or a
  component obtained from another module, identified by the module it is imported or
  required from.
\<close>

datatype element_type = Intrinsic string | Imported string

text \<open>
  A node is a text child, a fragment \<open><>...</>\<close>, an element with its props (all props
  of this file are strings) and children, or an instance of a function component of this
  file: its name, its \<open>key\<close>, and the markup the function returns for its props.
  A key given as a number is kept as that number (React stores its decimal string).
\<close>

datatype jsx =
    JText string
  | JFragment "jsx list"
  | JElement element_type "(string \<times> string) list" "jsx list"
  | JComponent string "nat option" jsx

fun children :: "jsx \<Rightarrow> jsx list" where
  "children (JText s) = []"
| "children (JFragment cs) = cs"
| "children (JElement t ps cs) = cs"
| "children (JComponent n k b) = [b]"

fun etype :: "jsx \<Rightarrow> element_type option" where
  "etype (JElement t ps cs) = Some t"
| "etype n = None"

fun attr :: "string \<Rightarrow> jsx \<Rightarrow> string option" where
  "attr a (JElement t ps cs) = map_of ps a"
| "attr a n = None"

fun key_of :: "jsx \<Rightarrow> nat option" where
  "key_of (JComponent n k b) = k"
| "key_of n = None"

fun body_of :: "jsx \<Rightarrow> jsx option" where
  "body_of (JComponent n k b) = Some b"
| "body_of n = None"

text \<open>The child at a position, and the node at the end of a path of positions.\<close>

definition child :: "jsx \<Rightarrow> nat \<Rightarrow> jsx option" where
  "child n i = (if i < length (children n) then Some (children n ! i) else None)"

fun descend :: "nat list \<Rightarrow> jsx \<Rightarrow> jsx option" where
  "descend [] n = Some n"
| "descend (i # is) n = (case child n i of None \<Rightarrow> None | Some c \<Rightarrow> descend is c)"

text \<open>The visible text of a node: the text children in document order.\<close>

fun text_content :: "jsx \<Rightarrow> string" where
  "text_content (JText s) = s"
| "text_content (JFragment cs) = concat (map text_content cs)"
| "text_content (JElement t ps cs) = concat (map text_content cs)"
| "text_content (JComponent n k b) = text_content b"

section \<open>Imports of the component file\<close>

text \<open>
  \<open>clsx\<close> joins its truthy arguments with single spaces; the empty string is falsy.
\<close>

fun clsx :: "string list \<Rightarrow> string" where
  "clsx [] = []"
| "clsx (x # xs) =
     (if x = [] then clsx xs
      else if clsx xs = [] then x
      else x @ '' '' @ clsx xs)"

definition Heading :: element_type where
  "Heading = Imported ''@theme/Heading''"

definition Link :: element_type where
  "Link = Imported ''@docusaurus/Link''"

text \<open>
  \<open>styles\<close> is the CSS module \<open>./styles.module.css\<close>: the two class names the component
  reads from it are parameters of the rendering functions.
\<close>

record styles =
  features :: string
  featureSvg :: string

section \<open>FeatureItem and FeatureList\<close>

record FeatureItem =
  title :: string
  Svg :: element_type
  description :: jsx
  linkTo :: string

definition FeatureList :: "FeatureItem list" where
  "FeatureList =
     [ \<lparr> title = ''Workload Identities in AKS'',
         Svg = Imported ''@site/static/img/azure-aks-color.svg'',
         description = JFragment
           [JText ''Learn how to setup your cluster for using Azure Workload Identity''],
         linkTo = ''/docs/aks/aks-workload-identity'' \<rparr>,
       \<lparr> title = ''Scaling pods and nodes in AKS'',
         Svg = Imported ''@site/static/img/azure-aks-color.svg'',
         description = JFragment
           [JText ''Learn how to scale your AKS resources using KEDA and Cluster Autoscaler''],
         linkTo = ''/docs/aks/aks-scaling'' \<rparr> ]"

section \<open>Feature\<close>

definition Feature :: "styles \<Rightarrow> FeatureItem \<Rightarrow> jsx" where
  "Feature st item =
     JElement (Intrinsic ''div'') [(''className'', clsx [''col col--4''])]
       [ JElement (Intrinsic ''div'') [(''className'', ''text--center'')]
           [ JElement (Svg item) [(''className'', featureSvg st), (''role'', ''img'')] [] ],
         JElement (Intrinsic ''div'') [(''className'', ''text--center padding-horiz--md'')]
           [ JElement Heading [(''as'', ''h3'')] [JText (title item)],
             JElement (Intrinsic ''p'') [] [description item],
             JElement Link
               [(''className'', ''button button--secondary button--lg''),
                (''to'', linkTo item)]
               [JText ''Read''] ] ]"

section \<open>HomepageFeatures\<close>

text \<open>
  \<open>Array.prototype.map\<close> with a callback of the element and its index: a new array, the
  receiver unchanged.
\<close>

definition Array_map :: "('a \<Rightarrow> nat \<Rightarrow> 'b) \<Rightarrow> 'a list \<Rightarrow> 'b list" where
  "Array_map f xs = map (\<lambda>(idx, x). f x idx) (enumerate 0 xs)"

text \<open>
  \<open>HomepageFeatures\<close> has no props; it reads the module-level array \<open>FeatureList\<close>. The
  contents of that array at the time of the call are the second argument.
\<close>

definition HomepageFeatures :: "styles \<Rightarrow> FeatureItem list \<Rightarrow> jsx" where
  "HomepageFeatures st fl =
     JElement (Intrinsic ''section'') [(''className'', features st)]
       [ JElement (Intrinsic ''div'') [(''className'', ''container'')]
           [ JElement (Intrinsic ''div'') [(''className'', ''row justify-content-center'')]
               (Array_map (\<lambda>props idx. JComponent ''Feature'' (Some idx) (Feature st props))
                  fl) ] ]"

text \<open>The row of a rendered section and the card units in it.\<close>

definition row_of :: "jsx \<Rightarrow> jsx option" where
  "row_of page = descend [0, 0] page"

definition cards_of :: "jsx \<Rightarrow> jsx list" where
  "cards_of page = (case row_of page of None \<Rightarrow> [] | Some r \<Rightarrow> children r)"

section \<open>The parts of a card\<close>

definition card_icon :: "jsx \<Rightarrow> jsx option" where
  "card_icon c = descend [0, 0] c"

definition card_heading :: "jsx \<Rightarrow> jsx option" where
  "card_heading c = descend [1, 0] c"

definition card_paragraph :: "jsx \<Rightarrow> jsx option" where
  "card_paragraph c = descend [1, 1] c"

definition card_description :: "jsx \<Rightarrow> jsx option" where
  "card_description c = descend [1, 1, 0] c"

definition card_link :: "jsx \<Rightarrow> jsx option" where
  "card_link c = descend [1, 2] c"

definition link_label :: "jsx \<Rightarrow> string option" where
  "link_label c = map_option text_content (card_link c)"

section \<open>Module state\<close>

text \<open>
  Every component instance of a tree, in document order. The search stops at an instance:
  what lies inside its markup belongs to that unit.
\<close>

fun card_units :: "jsx \<Rightarrow> jsx list" where
  "card_units (JText s) = []"
| "card_units (JFragment cs) = concat (map card_units cs)"
| "card_units (JElement t ps cs) = concat (map card_units cs)"
| "card_units (JComponent n k b) = [JComponent n k b]"

section \<open>Module state and exceptions\<close>


datatype error = Thrown string












section \<open>Documents of the site\<close>

text \<open>
  The documents of the repository, as paths below the site root: \<open>docs/aks\<close> holds two
  markdown files. Neither starts with a front matter block, so neither overrides its
  route.
\<close>

definition docs_files :: "string list" where
  "docs_files = [''docs/aks/aks-workload-identity.md'', ''docs/aks/aks-scaling.md'']"

text \<open>
  Modelled from the spec: the routing of the documentation framework and the site
  configuration are not part of the component file. A route is a published, navigable page
  path within the site; a document is published under its path below the site root, without
  the file extension (the address \<open>/docs/aks/aks-workload-identity/\<close> that
  \<open>docs/aks/aks-scaling.md\<close> links to follows this scheme).
\<close>

definition route_of_doc :: "string \<Rightarrow> string option" where
  "route_of_doc path =
     (if 3 < length path \<and> drop (length path - 3) path = ''.md''
      then Some (''/'' @ take (length path - 3) path)
      else None)"

definition published_routes :: "string list" where
  "published_routes = List.map_filter route_of_doc docs_files"

definition dangling_links :: "FeatureItem list \<Rightarrow> string list" where
  "dangling_links fl = filter (\<lambda>l. l \<notin> set published_routes) (map linkTo fl)"

section \<open>Helper facts\<close>

lemma Array_map_length: "length (Array_map f xs) = length xs"
  by (simp add: Array_map_def)

lemma Array_map_nth: "i < length xs \<Longrightarrow> Array_map f xs ! i = f (xs ! i) i"
  by (simp add: Array_map_def nth_enumerate_eq)

lemma cards_of_HomepageFeatures:
  "cards_of (HomepageFeatures st fl) =
     Array_map (\<lambda>props idx. JComponent ''Feature'' (Some idx) (Feature st props)) fl"
  by (simp add: cards_of_def row_of_def HomepageFeatures_def child_def)

lemma map_key_of_Array_map:
  "map key_of (Array_map (\<lambda>props idx. JComponent n (Some idx) (g props)) xs)
     = map Some [0..<length xs]"
  by (rule nth_equalityI) (simp_all add: Array_map_length Array_map_nth)

lemma map_body_of_Array_map:
  "map body_of (Array_map (\<lambda>props idx. JComponent n (Some idx) (g props)) xs)
     = map (\<lambda>props. Some (g props)) xs"
  by (rule nth_equalityI) (simp_all add: Array_map_length Array_map_nth)

lemma HomepageFeatures_tree:
  "HomepageFeatures st fl =
     JElement (Intrinsic ''section'') [(''className'', features st)]
       [JElement (Intrinsic ''div'') [(''className'', ''container'')]
          [JElement (Intrinsic ''div'') [(''className'', ''row justify-content-center'')]
             (map (\<lambda>(idx, props). JComponent ''Feature'' (Some idx) (Feature st props))
                (zip [0..<length fl] fl))]]"
  by (simp add: HomepageFeatures_def Array_map_def enumerate_eq_zip)

lemma concat_card_units_instances:
  "concat (map card_units (map (\<lambda>(idx, props). JComponent n (Some idx) (g props)) zs))
     = map (\<lambda>(idx, props). JComponent n (Some idx) (g props)) zs"
  by (induction zs) (simp_all add: split_beta)

lemma card_units_HomepageFeatures:
  "card_units (HomepageFeatures st fl) =
     map (\<lambda>(idx, props). JComponent ''Feature'' (Some idx) (Feature st props))
       (zip [0..<length fl] fl)"
  unfolding HomepageFeatures_tree
  by (simp add: concat_card_units_instances del: map_map)







lemma route_workload_identity:
  "route_of_doc ''docs/aks/aks-workload-identity.md'' = Some ''/docs/aks/aks-workload-identity''"
  by (simp add: route_of_doc_def)

lemma route_scaling:
  "route_of_doc ''docs/aks/aks-scaling.md'' = Some ''/docs/aks/aks-scaling''"
  by (simp add: route_of_doc_def)

lemma published_routes_eq:
  "published_routes = [''/docs/aks/aks-workload-identity'', ''/docs/aks/aks-scaling'']"
  by (simp add: published_routes_def docs_files_def route_workload_identity route_scaling)

section \<open>The list literal\<close>

text \<open>
  C8. The list literal has exactly two entries. The first is titled
  "Workload Identities in AKS" and links to \<open>/docs/aks/aks-workload-identity\<close>; the second
  is titled "Scaling pods and nodes in AKS" and links to \<open>/docs/aks/aks-scaling\<close>. Both
  use the icon required from \<open>azure-aks-color.svg\<close>.
\<close>

theorem FeatureList_entries:
  "length FeatureList = 2
   \<and> map title FeatureList = [''Workload Identities in AKS'', ''Scaling pods and nodes in AKS'']
   \<and> map linkTo FeatureList = [''/docs/aks/aks-workload-identity'', ''/docs/aks/aks-scaling'']
   \<and> map Svg FeatureList =
       [Imported ''@site/static/img/azure-aks-color.svg'',
        Imported ''@site/static/img/azure-aks-color.svg'']"
  by (simp add: FeatureList_def)

text \<open>
  C6. Every \<open>linkTo\<close> of the list is the route of a document of the repository:
  \<open>/docs/aks/aks-workload-identity\<close> is the route of \<open>docs/aks/aks-workload-identity.md\<close>,
  \<open>/docs/aks/aks-scaling\<close> is the route of \<open>docs/aks/aks-scaling.md\<close>, and the list has
  no dangling link.
\<close>

theorem FeatureList_links_published:
  "dangling_links FeatureList = []
   \<and> ''docs/aks/aks-workload-identity.md'' \<in> set docs_files
   \<and> route_of_doc ''docs/aks/aks-workload-identity.md'' = Some (linkTo (FeatureList ! 0))
   \<and> linkTo (FeatureList ! 0) = ''/docs/aks/aks-workload-identity''
   \<and> ''docs/aks/aks-scaling.md'' \<in> set docs_files
   \<and> route_of_doc ''docs/aks/aks-scaling.md'' = Some (linkTo (FeatureList ! 1))
   \<and> linkTo (FeatureList ! 1) = ''/docs/aks/aks-scaling''"
proof -
  have links: "map linkTo FeatureList
                 = [''/docs/aks/aks-workload-identity'', ''/docs/aks/aks-scaling'']"
    by (simp add: FeatureList_def)
  have dangling: "dangling_links FeatureList = []"
    unfolding dangling_links_def links published_routes_eq by simp
  have file0: "''docs/aks/aks-workload-identity.md'' \<in> set docs_files"
    by (simp add: docs_files_def)
  have file1: "''docs/aks/aks-scaling.md'' \<in> set docs_files"
    by (simp add: docs_files_def)
  have target0: "linkTo (FeatureList ! 0) = ''/docs/aks/aks-workload-identity''"
    by (simp add: FeatureList_def)
  have target1: "linkTo (FeatureList ! 1) = ''/docs/aks/aks-scaling''"
    by (simp add: FeatureList_def)
  have route0: "route_of_doc ''docs/aks/aks-workload-identity.md''
                  = Some (linkTo (FeatureList ! 0))"
    unfolding target0 by (rule route_workload_identity)
  have route1: "route_of_doc ''docs/aks/aks-scaling.md'' = Some (linkTo (FeatureList ! 1))"
    unfolding target1 by (rule route_scaling)
  show ?thesis
    by (intro conjI)
      (rule dangling, rule file0, rule route0, rule target0, rule file1, rule route1,
        rule target1)
qed

section \<open>Feature\<close>

text \<open>
  C2. For every item, the card that \<open>Feature\<close> returns holds the icon component of the
  item inside a \<open>text--center\<close> box, a \<open>Heading\<close> rendered as \<open>h3\<close> whose text is the
  title of the item, the description of the item, and a \<open>Link\<close> whose target is the
  \<open>linkTo\<close> of the item and whose label is "Read". In particular the title
  "Workload Identities in AKS" gives exactly that heading text, and the \<open>linkTo\<close>
  \<open>/docs/aks/aks-scaling\<close> gives exactly that link target.
\<close>

theorem Feature_card:
  "descend [0] (Feature st item) =
     Some (JElement (Intrinsic ''div'') [(''className'', ''text--center'')]
        [JElement (Svg item) [(''className'', featureSvg st), (''role'', ''img'')] []])
   \<and> card_icon (Feature st item) =
       Some (JElement (Svg item) [(''className'', featureSvg st), (''role'', ''img'')] [])
   \<and> card_heading (Feature st item) =
       Some (JElement Heading [(''as'', ''h3'')] [JText (title item)])
   \<and> map_option (attr ''as'') (card_heading (Feature st item)) = Some (Some ''h3'')
   \<and> map_option text_content (card_heading (Feature st item)) = Some (title item)
   \<and> card_description (Feature st item) = Some (description item)
   \<and> map_option etype (card_link (Feature st item)) = Some (Some Link)
   \<and> map_option (attr ''to'') (card_link (Feature st item)) = Some (Some (linkTo item))
   \<and> link_label (Feature st item) = Some ''Read''
   \<and> map_option text_content
         (card_heading (Feature st (item\<lparr>title := ''Workload Identities in AKS''\<rparr>)))
       = Some ''Workload Identities in AKS''
   \<and> map_option (attr ''to'')
         (card_link (Feature st (item\<lparr>linkTo := ''/docs/aks/aks-scaling''\<rparr>)))
       = Some (Some ''/docs/aks/aks-scaling'')
   \<and> link_label (Feature st (item\<lparr>linkTo := ''/docs/aks/aks-scaling''\<rparr>)) = Some ''Read''"
  by (simp add: Feature_def card_icon_def card_heading_def card_description_def
      card_link_def link_label_def child_def)

text \<open>
  C7. For every item, the paragraph of the card has the description of the item as its
  only child, unchanged: whatever fragment is given as description is the fragment found
  in the card.
\<close>

theorem Feature_description_verbatim:
  "card_paragraph (Feature st item) = Some (JElement (Intrinsic ''p'') [] [description item])
   \<and> card_description (Feature st item) = Some (description item)
   \<and> card_description (Feature st (item\<lparr>description := d\<rparr>)) = Some d"
  by (simp add: Feature_def card_paragraph_def card_description_def child_def)

text \<open>
  C9. For every item, the last node of the body of the card is the call-to-action: a
  \<open>Link\<close> element with the button classes whose target is the \<open>linkTo\<close> of the item and
  whose only child is the text "Read". Its label is therefore the constant "Read", the
  same for any two items and any two style modules, whatever their titles, descriptions,
  icons and links.
\<close>

theorem Feature_label_constant:
  "card_link (Feature st item) =
     Some (JElement Link
       [(''className'', ''button button--secondary button--lg''), (''to'', linkTo item)]
       [JText ''Read''])
   \<and> map_option etype (card_link (Feature st item)) = Some (Some Link)
   \<and> map_option (attr ''to'') (card_link (Feature st item)) = Some (Some (linkTo item))
   \<and> map_option children (card_link (Feature st item)) = Some [JText ''Read'']
   \<and> link_label (Feature st item) = Some ''Read''
   \<and> link_label (Feature st \<lparr>title = t, Svg = g, description = d, linkTo = l\<rparr>) = Some ''Read''
   \<and> link_label (Feature st item) = link_label (Feature st' item')"
  by (simp add: Feature_def card_link_def link_label_def child_def)


section \<open>HomepageFeatures\<close>

text \<open>
  C1. For a list of N entries, the markup of \<open>HomepageFeatures\<close> is the section holding
  the container holding the row, and the children of the row are exactly N card units:
  the unit at position i is the \<open>Feature\<close> instance with key i whose markup is the card
  of entry i. The section has no other child and the container no other child, so these
  are all the units of the markup: keys are 0, ..., N - 1 and the cards follow the order
  of the list.
\<close>

theorem HomepageFeatures_cards:
  "HomepageFeatures st fl =
     JElement (Intrinsic ''section'') [(''className'', features st)]
       [JElement (Intrinsic ''div'') [(''className'', ''container'')]
          [JElement (Intrinsic ''div'') [(''className'', ''row justify-content-center'')]
             (map (\<lambda>(idx, props). JComponent ''Feature'' (Some idx) (Feature st props))
                (zip [0..<length fl] fl))]]
   \<and> card_units (HomepageFeatures st fl) =
       map (\<lambda>(idx, props). JComponent ''Feature'' (Some idx) (Feature st props))
         (zip [0..<length fl] fl)
   \<and> card_units (HomepageFeatures st fl) = cards_of (HomepageFeatures st fl)
   \<and> length (card_units (HomepageFeatures st fl)) = length fl
   \<and> map key_of (card_units (HomepageFeatures st fl)) = map Some [0..<length fl]
   \<and> map body_of (card_units (HomepageFeatures st fl)) = map (\<lambda>props. Some (Feature st props)) fl
   \<and> length (cards_of (HomepageFeatures st fl)) = length fl
   \<and> map key_of (cards_of (HomepageFeatures st fl)) = map Some [0..<length fl]
   \<and> map body_of (cards_of (HomepageFeatures st fl)) = map (\<lambda>props. Some (Feature st props)) fl
   \<and> cards_of (HomepageFeatures st fl) =
       map (\<lambda>(idx, props). JComponent ''Feature'' (Some idx) (Feature st props))
         (zip [0..<length fl] fl)"
proof -
  have count: "length (cards_of (HomepageFeatures st fl)) = length fl"
    by (simp add: cards_of_HomepageFeatures Array_map_length)
  have keys: "map key_of (cards_of (HomepageFeatures st fl)) = map Some [0..<length fl]"
    by (simp add: cards_of_HomepageFeatures map_key_of_Array_map)
  have bodies: "map body_of (cards_of (HomepageFeatures st fl))
                  = map (\<lambda>props. Some (Feature st props)) fl"
    by (simp add: cards_of_HomepageFeatures map_body_of_Array_map)
  have units: "cards_of (HomepageFeatures st fl) =
          map (\<lambda>(idx, props). JComponent ''Feature'' (Some idx) (Feature st props))
            (zip [0..<length fl] fl)"
    by (simp add: cards_of_HomepageFeatures Array_map_def enumerate_eq_zip)
  have all_units: "card_units (HomepageFeatures st fl) = cards_of (HomepageFeatures st fl)"
    unfolding units by (rule card_units_HomepageFeatures)
  show ?thesis
    unfolding all_units
    by (intro conjI)
      (rule HomepageFeatures_tree, rule units, rule refl, rule count, rule keys, rule bodies,
        rule count, rule keys, rule bodies, rule units)
qed

text \<open>
  C4. With an empty list the section is the container with an empty row: the row is
  there, it holds no card unit, and the result is markup like any other (the function
  has no error result).
\<close>

theorem HomepageFeatures_empty:
  "HomepageFeatures st [] =
     JElement (Intrinsic ''section'') [(''className'', features st)]
       [JElement (Intrinsic ''div'') [(''className'', ''container'')]
          [JElement (Intrinsic ''div'') [(''className'', ''row justify-content-center'')] []]]
   \<and> row_of (HomepageFeatures st []) =
       Some (JElement (Intrinsic ''div'') [(''className'', ''row justify-content-center'')] [])
   \<and> cards_of (HomepageFeatures st []) = []"
  by (simp add: HomepageFeatures_def Array_map_def cards_of_def row_of_def child_def)

section \<open>Purity\<close>



end
